theory Spec2Isabelle
  imports Complex_Main "HOL-Library.Sublist" "HOL-Library.Multiset"
begin

section \<open>Project catalogs (officeChat/commands/create/helper.ts)\<close>

text \<open>
  The metadata of a project offered by the chat participant. In the source \<open>type\<close> and
  \<open>platform\<close> are string literals, and \<open>data\<close> is optional: only templates carry it.
  The fields of the three kinds of entries share names in the source (\<open>id\<close>, \<open>name\<close>,
  \<open>description\<close>); here they carry the prefixes \<open>md_\<close>, \<open>config_\<close> and \<open>sample_\<close>.
\<close>

record TemplateData =
  capabilities :: string
  project_type :: string
  addin_host :: string
  agent :: string
  programming_language :: string

record ProjectMetadata =
  md_id :: string
  md_type :: string
  md_platform :: string
  md_name :: string
  md_description :: string
  md_data :: "TemplateData option"

text \<open>
  An entry of \<open>officeTemplateMetadata.json\<close> (the local template catalog) and a sample of
  \<open>sampleProvider.SampleCollection\<close> (the fetched sample catalog). Both catalogs are data
  from outside the function, so they are arguments here; of a sample only the fields that
  the code reads are kept.
\<close>

record TemplateConfig =
  config_id :: string
  config_name :: string
  config_description :: string
  config_project_type :: string
  config_addin_host :: string

record SampleConfig =
  sample_id :: string
  sample_title :: string
  sample_fullDescription :: string
  sample_types :: "string list"

text \<open>\<open>Array.prototype.includes\<close> on an array of strings.\<close>

definition includes_str :: "string list \<Rightarrow> string \<Rightarrow> bool" where
  "includes_str xs x = (x \<in> set xs)"

definition isOfficeSample :: "SampleConfig \<Rightarrow> bool" where
  "isOfficeSample sample =
     (includes_str (sample_types sample) ''Word'' \<or>
      includes_str (sample_types sample) ''Excel'' \<or>
      includes_str (sample_types sample) ''Powerpoint'')"

definition sampleMetadata :: "SampleConfig \<Rightarrow> ProjectMetadata" where
  "sampleMetadata sample =
     \<lparr> md_id = sample_id sample,
       md_type = ''sample'',
       md_platform = ''WXP'',
       md_name = sample_title sample,
       md_description = sample_fullDescription sample,
       md_data = None \<rparr>"

text \<open>
  The loop of \<open>getOfficeSampleMetadata\<close>: it walks the samples in order and pushes one
  entry onto \<open>result\<close> for each sample that passes the test.
\<close>

fun getOfficeSampleMetadata_loop ::
  "SampleConfig list \<Rightarrow> ProjectMetadata list \<Rightarrow> ProjectMetadata list" where
  "getOfficeSampleMetadata_loop [] result = result"
| "getOfficeSampleMetadata_loop (sample # rest) result =
     (if isOfficeSample sample
      then getOfficeSampleMetadata_loop rest (result @ [sampleMetadata sample])
      else getOfficeSampleMetadata_loop rest result)"

definition getOfficeSampleMetadata :: "SampleConfig list \<Rightarrow> ProjectMetadata list" where
  "getOfficeSampleMetadata samples = getOfficeSampleMetadata_loop samples []"

definition templateMetadata :: "TemplateConfig \<Rightarrow> ProjectMetadata" where
  "templateMetadata config =
     \<lparr> md_id = config_id config,
       md_type = ''template'',
       md_platform = ''WXP'',
       md_name = config_name config,
       md_description = config_description config,
       md_data = Some
         \<lparr> capabilities = config_id config,
           project_type = config_project_type config,
           addin_host = config_addin_host config,
           agent = ''office'',
           programming_language = ''typescript'' \<rparr> \<rparr>"

definition getOfficeTemplateMetadata :: "TemplateConfig list \<Rightarrow> ProjectMetadata list" where
  "getOfficeTemplateMetadata officeTemplateMeatdata = map templateMetadata officeTemplateMeatdata"

text \<open>The combined catalog that both matchers start from: templates first, then samples.\<close>

definition allOfficeProjectMetadata ::
  "TemplateConfig list \<Rightarrow> SampleConfig list \<Rightarrow> ProjectMetadata list" where
  "allOfficeProjectMetadata officeTemplateMeatdata samples =
     getOfficeTemplateMetadata officeTemplateMeatdata @ getOfficeSampleMetadata samples"

section \<open>Text handling\<close>

text \<open>
  Strings are HOL strings. The built-in \<open>String.prototype.toLowerCase\<close> lower-cases the
  capitals of every script, so it is not defined here: the functions that call it take it
  as an argument, and what is proved about them holds for every function in its place.
\<close>

text \<open>\<open>Array.prototype.join\<close> on an array of strings.\<close>

fun join :: "string list \<Rightarrow> string \<Rightarrow> string" where
  "join [] separator = []"
| "join [x] separator = x"
| "join (x # y # ys) separator = x @ separator @ join (y # ys) separator"

section \<open>The BM25 ranking engine (officeChat/retrievalUtil/BM25.ts)\<close>

text \<open>
  The two interfaces that \<open>helper.ts\<close> imports from the engine are declared in the
  missing file \<open>retrievalUtil/BM25.ts\<close>; they are given the fields that \<open>helper.ts\<close>
  writes and reads. A document is a text with its metadata.
\<close>

record DocumentWithmetadata =
  documentText :: string
  metadata :: ProjectMetadata

text \<open>A match is a document with its score; scores are real numbers.\<close>

record BMDocument =
  score :: real
  document :: DocumentWithmetadata

text \<open>
  Modelled from the spec: the class \<open>BM25\<close> of \<open>retrievalUtil/BM25.ts\<close> is not among the
  source files; only its use in \<open>helper.ts\<close> is. What the constructor precomputes per
  document is taken from section 4.2 of the specification: the term-frequency counts and
  the length in terms.
\<close>

record DocumentStatistics =
  statDocument :: DocumentWithmetadata
  termFrequency :: "string \<Rightarrow> nat"
  documentLength :: nat

text \<open>
  Modelled from the spec: the state of an engine of the missing class \<open>BM25\<close>, by section
  4.2 of the specification the documents with their statistics, the document frequency
  of each term, the average document length and the number of documents.
\<close>

record BM25 =
  corpus :: "DocumentStatistics list"
  documentFrequency :: "string \<Rightarrow> nat"
  averageLength :: real
  totalDocuments :: nat

text \<open>
  Modelled from the spec: how the engine cuts a document text into terms is in the
  missing file \<open>retrievalUtil/BM25.ts\<close>. The caller joins the terms with single spaces,
  so the text is cut at spaces and empty pieces are dropped (``collapse whitespace runs
  into single separators''). \<open>splitTerms w text\<close> reads \<open>text\<close> with \<open>w\<close> the term begun.
\<close>

fun splitTerms :: "string \<Rightarrow> string \<Rightarrow> string list" where
  "splitTerms w [] = (if w = [] then [] else [w])"
| "splitTerms w (c # cs) =
     (if c = CHR '' ''
      then (if w = [] then splitTerms [] cs else w # splitTerms [] cs)
      else splitTerms (w @ [c]) cs)"

text \<open>
  Modelled from the spec: the term sequence of a document text, for the missing engine.
\<close>

definition termsOf :: "string \<Rightarrow> string list" where
  "termsOf text = splitTerms [] text"

text \<open>
  Modelled from the spec: the statistics that the missing constructor computes for one
  document, its term counts and its number of terms.
\<close>

definition documentStatistics :: "DocumentWithmetadata \<Rightarrow> DocumentStatistics" where
  "documentStatistics d =
     \<lparr> statDocument = d,
       termFrequency = count_list (termsOf (documentText d)),
       documentLength = length (termsOf (documentText d)) \<rparr>"

text \<open>
  Modelled from the spec: the constructor \<open>new BM25(documents)\<close> of the missing file,
  \<open>buildCorpus\<close> in section 6 of the specification. It is total; on the empty corpus the
  average length is the quotient \<open>0 / 0\<close>, which is \<open>0\<close> in HOL.
\<close>

definition buildCorpus :: "DocumentWithmetadata list \<Rightarrow> BM25" where
  "buildCorpus documents =
     \<lparr> corpus = map documentStatistics documents,
       documentFrequency =
         (\<lambda>term. length (filter (\<lambda>d. term \<in> set (termsOf (documentText d))) documents)),
       averageLength =
         real (sum_list (map (\<lambda>d. length (termsOf (documentText d))) documents))
           / real (length documents),
       totalDocuments = length documents \<rparr>"

text \<open>
  Modelled from the spec: the parameter \<open>k1\<close> of the missing engine, at the value that
  section 4.2 of the specification names; the caller passes none.
\<close>

definition bm25_k1 :: real where
  "bm25_k1 = 3 / 2"

text \<open>
  Modelled from the spec: the parameter \<open>b\<close> of the missing engine, at the value that
  section 4.2 of the specification names.
\<close>

definition bm25_b :: real where
  "bm25_b = 3 / 4"

text \<open>
  Modelled from the spec: the inverse-document-frequency weight of the missing engine.
  The specification asks for ``standard BM25'' with non-negative scores, so the weight is
  the variant that adds one inside the logarithm.
\<close>

definition inverseDocumentFrequency :: "BM25 \<Rightarrow> string \<Rightarrow> real" where
  "inverseDocumentFrequency engine term =
     ln (1 + (real (totalDocuments engine) - real (documentFrequency engine term) + 1 / 2)
              / (real (documentFrequency engine term) + 1 / 2))"

text \<open>
  Modelled from the spec: what one query term adds to the score of a document in the
  missing engine, the weight of the term times its saturating frequency, normalized by
  the length of the document relative to the average. A term that no document contains
  adds nothing.
\<close>

definition termScore :: "BM25 \<Rightarrow> DocumentStatistics \<Rightarrow> string \<Rightarrow> real" where
  "termScore engine d term =
     (if documentFrequency engine term = 0 then 0
      else inverseDocumentFrequency engine term
             * (real (termFrequency d term) * (bm25_k1 + 1))
             / (real (termFrequency d term)
                  + bm25_k1 * (1 - bm25_b
                      + bm25_b * real (documentLength d) / averageLength engine)))"

text \<open>
  Modelled from the spec: the score of a document in the missing engine, accumulated over
  the terms of the query.
\<close>

definition documentScore :: "BM25 \<Rightarrow> DocumentStatistics \<Rightarrow> string list \<Rightarrow> real" where
  "documentScore engine d query = sum_list (map (termScore engine d) query)"

text \<open>
  Modelled from the spec: the first step of the missing \<open>search\<close>, every document of the
  corpus with its score, in corpus order.
\<close>

definition scoreDocuments :: "BM25 \<Rightarrow> string list \<Rightarrow> BMDocument list" where
  "scoreDocuments engine query =
     map (\<lambda>d. \<lparr> score = documentScore engine d query, document = statDocument d \<rparr>)
       (corpus engine)"

text \<open>
  Modelled from the spec: one step of the ordering in the missing \<open>search\<close>. A match is
  put in front of the first match that does not score higher.
\<close>

fun insertByScore :: "BMDocument \<Rightarrow> BMDocument list \<Rightarrow> BMDocument list" where
  "insertByScore m [] = [m]"
| "insertByScore m (n # ns) =
     (if score n \<le> score m then m # n # ns else n # insertByScore m ns)"

text \<open>
  Modelled from the spec: the ordering step of the missing \<open>search\<close>, descending by score
  with ties left in corpus order. The list is built from its end, so an earlier document
  stays in front of a later one with the same score.
\<close>

fun sortByScore :: "BMDocument list \<Rightarrow> BMDocument list" where
  "sortByScore [] = []"
| "sortByScore (m # ms) = insertByScore m (sortByScore ms)"

text \<open>
  Modelled from the spec: the method \<open>search(query, maxResults)\<close> of the missing file.
  Every document is scored, only strictly positive scores are kept, the matches are
  ordered and the first \<open>maxResults\<close> are returned.
\<close>

definition search :: "BM25 \<Rightarrow> string list \<Rightarrow> nat \<Rightarrow> BMDocument list" where
  "search engine query maxResults =
     take maxResults
       (sortByScore (filter (\<lambda>m. 0 < score m) (scoreDocuments engine query)))"

text \<open>
  Modelled from the spec: what sections 3, 4.2 and 8 of the specification ask of the full
  ranking that the missing \<open>search\<close> cuts its result from, as a predicate on a sequence of
  matches and not as a way to compute it. The sequence holds every document of the corpus
  with a strictly positive score, once per occurrence in the corpus and no other match;
  it is in descending order of score; and the matches that share a score stand in it as
  they stand in the corpus.
\<close>

definition isRanking :: "BM25 \<Rightarrow> string list \<Rightarrow> BMDocument list \<Rightarrow> bool" where
  "isRanking engine query ranked =
     (mset ranked = mset (filter (\<lambda>m. 0 < score m) (scoreDocuments engine query)) \<and>
      sorted_wrt (\<lambda>m n. score n \<le> score m) ranked \<and>
      (\<forall>m \<in> set ranked.
         filter (\<lambda>n. score n = score m) ranked =
         filter (\<lambda>n. score n = score m) (scoreDocuments engine query)))"

text \<open>
  Modelled from the spec: the contract of the missing \<open>search\<close> in section 4.2 of the
  specification, ``the top-K documents by score, descending, stable tie-break by insertion
  order, length at most K'': a sequence of matches is a result of the search when it is
  the first \<open>maxResults\<close> matches of a ranking.
\<close>

definition isSearchResult :: "BM25 \<Rightarrow> string list \<Rightarrow> nat \<Rightarrow> BMDocument list \<Rightarrow> bool" where
  "isSearchResult engine query maxResults matches =
     (\<exists>ranked. isRanking engine query ranked \<and> matches = take maxResults ranked)"

text \<open>
  Modelled from the spec: \<open>new BM25(documents).search(query, maxResults)\<close> of the missing
  file, the engine as \<open>matchOfficeProjectByBM25\<close> uses it.
\<close>

definition bm25Search :: "DocumentWithmetadata list \<Rightarrow> string list \<Rightarrow> nat \<Rightarrow> BMDocument list" where
  "bm25Search documents query maxResults = search (buildCorpus documents) query maxResults"

section \<open>Matching by BM25 (helper.ts, matchOfficeProjectByBM25)\<close>

text \<open>
  The function calls three things that are not defined in the file: the built-in
  \<open>toLowerCase\<close>, the tokenizer \<open>prepareDiscription\<close> (retrievalUtil/retrievalUtil.ts) and
  the engine. It takes all three as arguments; \<open>bm25\<close> stands for
  \<open>new BM25(documents).search(query, maxResults)\<close>. The catalogs and the prompt of the
  request are the remaining inputs.

  The documents that the function builds (lines 260 to 265): one for each entry of the
  combined catalog, with the joined tokens of the lower-cased description as its text and
  the entry as its metadata.
\<close>

definition corpusDocuments ::
  "(string \<Rightarrow> string) \<Rightarrow> (string \<Rightarrow> string list) \<Rightarrow> ProjectMetadata list \<Rightarrow>
   DocumentWithmetadata list" where
  "corpusDocuments toLowerCase prepareDiscription allMetadata =
     map (\<lambda>sample.
            \<lparr> documentText =
                join (prepareDiscription (toLowerCase (md_description sample))) '' '',
              metadata = sample \<rparr>)
       allMetadata"

text \<open>
  The test on the matches that closes the function (lines 274 to 278): the metadata of the
  match when there is one match and no more and it scores above 1, \<open>undefined\<close> otherwise.
\<close>

definition acceptedProject :: "BMDocument list \<Rightarrow> ProjectMetadata option" where
  "acceptedProject matchedDocuments =
     (if length matchedDocuments = 1 \<and> 1 < score (matchedDocuments ! 0)
      then Some (metadata (document (matchedDocuments ! 0)))
      else None)"

definition matchOfficeProjectByBM25 ::
  "(string \<Rightarrow> string) \<Rightarrow> (string \<Rightarrow> string list) \<Rightarrow>
   (DocumentWithmetadata list \<Rightarrow> string list \<Rightarrow> nat \<Rightarrow> BMDocument list) \<Rightarrow>
   TemplateConfig list \<Rightarrow> SampleConfig list \<Rightarrow> string \<Rightarrow> ProjectMetadata option" where
  "matchOfficeProjectByBM25 toLowerCase prepareDiscription bm25 officeTemplateMeatdata samples
       prompt =
     (let documents =
            corpusDocuments toLowerCase prepareDiscription
              (allOfficeProjectMetadata officeTemplateMeatdata samples);
          query = prepareDiscription (toLowerCase prompt);
          matchedDocuments = bm25 documents query 3
      in acceptedProject matchedDocuments)"

section \<open>Matching by the language model (helper.ts, matchOfficeProject)\<close>

text \<open>
  The values that \<open>JSON.parse\<close> can return. An object is the list of its own properties,
  each key once; \<open>undefined\<close> is \<open>None\<close> of \<open>json option\<close>.
\<close>

datatype json =
    JNull
  | JBool bool
  | JNumber real
  | JString string
  | JArray "json list"
  | JObject "(string \<times> json) list"

datatype error = SyntaxError

text \<open>The truth value of a parsed value in a condition, and of a possibly undefined one.\<close>

fun toBoolean :: "json \<Rightarrow> bool" where
  "toBoolean JNull = False"
| "toBoolean (JBool v) = v"
| "toBoolean (JNumber n) = (n \<noteq> 0)"
| "toBoolean (JString s) = (s \<noteq> [])"
| "toBoolean (JArray vs) = True"
| "toBoolean (JObject ps) = True"

definition truthy :: "json option \<Rightarrow> bool" where
  "truthy v = (case v of None \<Rightarrow> False | Some j \<Rightarrow> toBoolean j)"

text \<open>
  \<open>responseJson.addin\<close> for a parsed value that is not \<open>null\<close>: an object yields its
  property \<open>addin\<close> or \<open>undefined\<close>; a boolean, a number, a string and an array have no
  such property.
\<close>

fun getAddin :: "json \<Rightarrow> json option" where
  "getAddin (JObject ps) = map_of ps ''addin''"
| "getAddin j = None"

text \<open>\<open>config.id === matchedProjectId\<close>, with a string on the left.\<close>

fun strictEquals :: "string \<Rightarrow> json option \<Rightarrow> bool" where
  "strictEquals s (Some (JString t)) = (s = t)"
| "strictEquals s v = False"

definition tryCatch :: "error + 'a \<Rightarrow> (error \<Rightarrow> error + 'a) \<Rightarrow> error + 'a" where
  "tryCatch body handler = (case body of Inl e \<Rightarrow> handler e | Inr v \<Rightarrow> Inr v)"

text \<open>
  The body of the \<open>try\<close> block, as the value that \<open>matchedProjectId\<close> has after it;
  \<open>JSON.parse\<close> is an argument that either throws or returns a value.
\<close>

definition tryParseAddin :: "(string \<Rightarrow> error + json) \<Rightarrow> string \<Rightarrow> error + json option" where
  "tryParseAddin JSON_parse response =
     (case JSON_parse response of
        Inl e \<Rightarrow> Inl e
      | Inr responseJson \<Rightarrow>
          if toBoolean responseJson \<and> truthy (getAddin responseJson)
          then Inr (getAddin responseJson)
          else Inr None)"

definition matchedProjectIdOf ::
  "(string \<Rightarrow> error + json) \<Rightarrow> string option \<Rightarrow> error + json option" where
  "matchedProjectIdOf JSON_parse response =
     (case response of
        None \<Rightarrow> Inr None
      | Some r \<Rightarrow>
          if r \<noteq> [] then tryCatch (tryParseAddin JSON_parse r) (\<lambda>e. Inr None)
          else Inr None)"

text \<open>
  \<open>response\<close> is what \<open>getCopilotResponseAsString\<close> resolved to (\<open>None\<close> when it is
  absent). The result is \<open>Inl\<close> when an exception leaves the function.
\<close>

definition matchOfficeProject ::
  "(string \<Rightarrow> error + json) \<Rightarrow> TemplateConfig list \<Rightarrow> SampleConfig list \<Rightarrow>
   string option \<Rightarrow> error + ProjectMetadata option" where
  "matchOfficeProject JSON_parse officeTemplateMeatdata samples response =
     (case matchedProjectIdOf JSON_parse response of
        Inl e \<Rightarrow> Inl e
      | Inr matchedProjectId \<Rightarrow>
          Inr (find (\<lambda>config. strictEquals (md_id config) matchedProjectId)
                 (allOfficeProjectMetadata officeTemplateMeatdata samples)))"

section \<open>The create command (officeCreateCommandHandler.ts)\<close>

text \<open>
  The enumeration \<open>OfficeChatCommand\<close> is declared in \<open>officeChat/consts\<close>; the handler
  names its member \<open>Create\<close> only, the others are kept by name.
\<close>

datatype OfficeChatCommand = Create | OtherCommand string

datatype TelemetryEvent = CopilotChatStart | CopilotChat

record ResultMetadata =
  command :: OfficeChatCommand
  requestId :: string

record ICopilotChatResult =
  resultMetadata :: ResultMetadata

text \<open>What the handler does to the outside, in the order in which it does it.\<close>

datatype effect =
    SendTelemetryEvent TelemetryEvent
  | IsInputHarmful
  | MatchOfficeProject
  | PushChatMessages
  | VerbatimCopilotInteraction string
  | ShowFileTree
  | ShowTemplateFileTree
  | ResponseButton string string
  | ResponseMarkdown string
  | PlannerProcessRequest
  | MarkComplete

text \<open>
  What the collaborators of the handler answer: the harm check, the matcher, the planner,
  the two file-tree helpers, the telemetry data and the localization table.
\<close>

record Collaborators =
  isHarmful :: bool
  matchedResult :: "ProjectMetadata option"
  plannerResult :: ICopilotChatResult
  sampleFolder :: string
  templateFolder :: string
  telemetryRequestId :: string
  localize :: "string \<Rightarrow> string"

definition completeRequest :: "Collaborators \<Rightarrow> effect list \<Rightarrow> ICopilotChatResult \<times> effect list" where
  "completeRequest env effects =
     (\<lparr> resultMetadata = \<lparr> command = Create, requestId = telemetryRequestId env \<rparr> \<rparr>,
      effects @ [MarkComplete, SendTelemetryEvent CopilotChat])"

definition showMatchedProject :: "Collaborators \<Rightarrow> ProjectMetadata \<Rightarrow> effect list" where
  "showMatchedProject env matched =
     (if md_type matched = ''sample''
      then [ShowFileTree,
            ResponseButton (localize env ''teamstoolkit.chatParticipants.create.sample'')
              (sampleFolder env)]
      else if md_type matched = ''template''
      then [ResponseMarkdown
              (CHR 0x0A # ''We'' @ [CHR 0x27] @
               ''ve found a template project that matches your description. Take a look at it below.''),
            ShowTemplateFileTree,
            ResponseButton (localize env ''teamstoolkit.chatParticipants.create.template'')
              (templateFolder env)]
      else [])"

definition officeCreateCommandHandler :: "Collaborators \<Rightarrow> ICopilotChatResult \<times> effect list" where
  "officeCreateCommandHandler env =
     (let started = [SendTelemetryEvent CopilotChatStart, IsInputHarmful]
      in if \<not> isHarmful env
         then (case matchedResult env of
                 Some matched \<Rightarrow>
                   completeRequest env
                     (started @
                      [MatchOfficeProject, PushChatMessages,
                       VerbatimCopilotInteraction ''copilot-gpt-3.5-turbo''] @
                      showMatchedProject env matched)
               | None \<Rightarrow>
                   (plannerResult env, started @ [MatchOfficeProject, PlannerProcessRequest]))
         else completeRequest env
                (started @
                 [ResponseMarkdown
                    (localize env
                       ''teamstoolkit.chatParticipants.officeAddIn.harmfulInputResponse'')]))"

text \<open>The effects that write to the response stream.\<close>

fun writesResponse :: "effect \<Rightarrow> bool" where
  "writesResponse (ResponseMarkdown text) = True"
| "writesResponse (ResponseButton title folder) = True"
| "writesResponse (VerbatimCopilotInteraction model) = True"
| "writesResponse ShowFileTree = True"
| "writesResponse ShowTemplateFileTree = True"
| "writesResponse PlannerProcessRequest = True"
| "writesResponse e = False"

section \<open>The acceptance rule in the words of the specification\<close>

text \<open>
  The specification describes the policy of \<open>matchOfficeProjectByBM25\<close> as ``accept only if
  exactly one match scores above 1.0''. This predicate follows those words, to be compared
  with the test that the function makes: among the matches that the search returned,
  exactly one has a score above 1.
\<close>

definition exactlyOneAboveThreshold :: "BMDocument list \<Rightarrow> bool" where
  "exactlyOneAboveThreshold matchedDocuments =
     (length (filter (\<lambda>m. 1 < score m) matchedDocuments) = 1)"

section \<open>Example inputs\<close>

text \<open>
  A template catalog with one entry and a sample catalog with two, of which the second is
  no Office sample; the documents that the matcher builds from them when the tokenizer
  cuts at blanks and the lower-casing is that of ASCII text; a \<open>JSON.parse\<close> restricted
  to three texts, which throws on every other text; and collaborators for the handler.
\<close>

text \<open>
  The examples are written in ASCII. On a text made of ASCII characters only, the built-in
  \<open>toLowerCase\<close> moves \<open>A\<close> .. \<open>Z\<close> (codes 65 .. 90) to \<open>a\<close> .. \<open>z\<close> and leaves every
  other character; \<open>toLowerCaseASCII\<close> does this, and stands for the built-in in the
  examples. It is not the built-in on texts with other characters, and no example has
  one.
\<close>

definition isUpperCaseASCII :: "char \<Rightarrow> bool" where
  "isUpperCaseASCII c = (65 \<le> (of_char c :: nat) \<and> (of_char c :: nat) \<le> 90)"

definition toLowerCaseASCIIChar :: "char \<Rightarrow> char" where
  "toLowerCaseASCIIChar c =
     (if isUpperCaseASCII c then char_of ((of_char c :: nat) + 32) else c)"

definition toLowerCaseASCII :: "string \<Rightarrow> string" where
  "toLowerCaseASCII s = map toLowerCaseASCIIChar s"

definition exampleTemplates :: "TemplateConfig list" where
  "exampleTemplates =
     [\<lparr> config_id = ''excel-chart'', config_name = ''Excel chart'',
        config_description = ''Excel chart data'',
        config_project_type = ''office-addin-type'', config_addin_host = ''excel'' \<rparr>]"

definition exampleSamples :: "SampleConfig list" where
  "exampleSamples =
     [\<lparr> sample_id = ''word-mail'', sample_title = ''Word mail'',
        sample_fullDescription = ''Word mail merge'', sample_types = [''Word''] \<rparr>,
      \<lparr> sample_id = ''bot'', sample_title = ''Bot'',
        sample_fullDescription = ''Teams bot'', sample_types = [''Bot''] \<rparr>]"

definition exampleDocuments :: "DocumentWithmetadata list" where
  "exampleDocuments =
     [\<lparr> documentText = ''excel chart data'',
        metadata = templateMetadata (exampleTemplates ! 0) \<rparr>,
      \<lparr> documentText = ''word mail merge'',
        metadata = sampleMetadata (exampleSamples ! 0) \<rparr>]"

text \<open>
  The corpus of the first scenario in section 8 of the specification; its metadata is an
  identifier only.
\<close>

definition scenarioMetadata :: "string \<Rightarrow> ProjectMetadata" where
  "scenarioMetadata i =
     \<lparr> md_id = i, md_type = ''sample'', md_platform = ''WXP'', md_name = i,
       md_description = i, md_data = None \<rparr>"

definition scenarioDocuments :: "DocumentWithmetadata list" where
  "scenarioDocuments =
     [\<lparr> documentText = ''word excel add-in'', metadata = scenarioMetadata ''A'' \<rparr>,
      \<lparr> documentText = ''excel custom function'', metadata = scenarioMetadata ''B'' \<rparr>,
      \<lparr> documentText = ''powerpoint slide generator'', metadata = scenarioMetadata ''C'' \<rparr>]"

definition exampleParse :: "string \<Rightarrow> error + json" where
  "exampleParse text =
     (if text = ''{\"addin\":\"excel-chart\"}''
      then Inr (JObject [(''addin'', JString ''excel-chart'')])
      else if text = ''{\"addin\":\"unknown\"}''
      then Inr (JObject [(''addin'', JString ''unknown'')])
      else if text = ''null'' then Inr JNull
      else Inl SyntaxError)"

definition exampleCollaborators :: Collaborators where
  "exampleCollaborators =
     \<lparr> isHarmful = True,
       matchedResult = Some (templateMetadata (exampleTemplates ! 0)),
       plannerResult =
         \<lparr> resultMetadata = \<lparr> command = OtherCommand ''generatecode'', requestId = ''p-1'' \<rparr> \<rparr>,
       sampleFolder = ''/tmp/sample'',
       templateFolder = ''/tmp/template'',
       telemetryRequestId = ''r-1'',
       localize = (\<lambda>key. ''L:'' @ key) \<rparr>"

section \<open>Properties of the catalogs\<close>

lemma getOfficeSampleMetadata_loop_eq:
  "getOfficeSampleMetadata_loop samples result =
     result @ map sampleMetadata (filter isOfficeSample samples)"
  by (induction samples arbitrary: result) simp_all

lemma getOfficeSampleMetadata_eq:
  "getOfficeSampleMetadata samples = map sampleMetadata (filter isOfficeSample samples)"
  by (simp add: getOfficeSampleMetadata_def getOfficeSampleMetadata_loop_eq)


text \<open>
  C9. Every entry of the combined catalog has platform \<open>WXP\<close> and type \<open>template\<close> or
  \<open>sample\<close>. An entry made by \<open>getOfficeTemplateMetadata\<close> has type \<open>template\<close> and
  carries data whose capabilities are the entry's id and whose programming language is
  \<open>typescript\<close>. An entry made by \<open>getOfficeSampleMetadata\<close> has type \<open>sample\<close> and is
  made from a sample whose types include \<open>Word\<close>, \<open>Excel\<close> or \<open>Powerpoint\<close>.
\<close>

theorem catalog_metadata_shape:
  "(\<forall>m \<in> set (allOfficeProjectMetadata officeTemplateMeatdata samples).
      md_platform m = ''WXP'' \<and> (md_type m = ''template'' \<or> md_type m = ''sample''))
   \<and> (\<forall>m \<in> set (getOfficeTemplateMetadata officeTemplateMeatdata).
      md_type m = ''template'' \<and>
      (\<exists>d. md_data m = Some d \<and> capabilities d = md_id m \<and>
           programming_language d = ''typescript''))
   \<and> (\<forall>m \<in> set (getOfficeSampleMetadata samples).
      md_type m = ''sample'' \<and>
      (\<exists>sample \<in> set samples. m = sampleMetadata sample \<and>
         (''Word'' \<in> set (sample_types sample) \<or> ''Excel'' \<in> set (sample_types sample) \<or>
          ''Powerpoint'' \<in> set (sample_types sample))))"
  by (auto simp: allOfficeProjectMetadata_def getOfficeTemplateMetadata_def
      getOfficeSampleMetadata_eq templateMetadata_def sampleMetadata_def isOfficeSample_def
      includes_str_def)

lemma example_catalog:
  "allOfficeProjectMetadata exampleTemplates exampleSamples =
     [templateMetadata (exampleTemplates ! 0), sampleMetadata (exampleSamples ! 0)]"
  by (simp add: allOfficeProjectMetadata_def exampleTemplates_def exampleSamples_def
      getOfficeTemplateMetadata_def getOfficeSampleMetadata_def isOfficeSample_def
      includes_str_def)

lemma example_template_catalog:
  "getOfficeTemplateMetadata exampleTemplates = [templateMetadata (exampleTemplates ! 0)]"
  by (simp add: exampleTemplates_def getOfficeTemplateMetadata_def)

lemma example_sample_catalog:
  "getOfficeSampleMetadata exampleSamples = [sampleMetadata (exampleSamples ! 0)]"
  by (simp add: exampleSamples_def getOfficeSampleMetadata_def isOfficeSample_def
      includes_str_def)

lemma example_ids:
  "md_id (templateMetadata (exampleTemplates ! 0)) = ''excel-chart''"
  "md_id (sampleMetadata (exampleSamples ! 0)) = ''word-mail''"
  by (simp_all add: templateMetadata_def sampleMetadata_def exampleTemplates_def
      exampleSamples_def)

theorem catalog_metadata_shape_witness:
  "templateMetadata (exampleTemplates ! 0)
     \<in> set (allOfficeProjectMetadata exampleTemplates exampleSamples)
   \<and> md_platform (templateMetadata (exampleTemplates ! 0)) = ''WXP''
   \<and> templateMetadata (exampleTemplates ! 0) \<in> set (getOfficeTemplateMetadata exampleTemplates)
   \<and> md_type (templateMetadata (exampleTemplates ! 0)) = ''template''
   \<and> sampleMetadata (exampleSamples ! 0) \<in> set (getOfficeSampleMetadata exampleSamples)
   \<and> md_type (sampleMetadata (exampleSamples ! 0)) = ''sample''
   \<and> length (getOfficeSampleMetadata exampleSamples) = 1"
  using catalog_metadata_shape [of exampleTemplates exampleSamples]
  by (simp add: example_catalog example_template_catalog example_sample_catalog)

section \<open>Properties of the BM25 matcher\<close>

lemma allOfficeProjectMetadata_eq:
  "allOfficeProjectMetadata officeTemplateMeatdata samples =
     map templateMetadata officeTemplateMeatdata @
     map sampleMetadata (filter isOfficeSample samples)"
  by (simp add: allOfficeProjectMetadata_def getOfficeTemplateMetadata_def
      getOfficeSampleMetadata_eq)

lemma matchOfficeProjectByBM25_engine_call:
  "matchOfficeProjectByBM25 toLowerCase prepareDiscription bm25 officeTemplateMeatdata samples
       prompt =
     acceptedProject
       (bm25 (corpusDocuments toLowerCase prepareDiscription
                (allOfficeProjectMetadata officeTemplateMeatdata samples))
          (prepareDiscription (toLowerCase prompt)) 3)"
  by (simp add: matchOfficeProjectByBM25_def)

text \<open>
  C5. The function is run with engines that look at the corpus they are given, and its
  result shows what they were given. An engine that decides on the metadata of its
  documents decides on the metadata of the templates, in the order of the template
  catalog, followed by the metadata of the samples whose types include \<open>Word\<close>,
  \<open>Excel\<close> or \<open>Powerpoint\<close>, in the order of the sample catalog. An engine that decides
  on the ids sees the ids of these catalog entries, and an engine that decides on the
  number of documents sees the number of these entries: one document for each entry,
  carrying its metadata. This holds for every \<open>toLowerCase\<close>, tokenizer and prompt.
\<close>

theorem corpus_follows_catalogs:
  "matchOfficeProjectByBM25 toLowerCase prepareDiscription
       (\<lambda>documents query maxResults. metadataEngine (map metadata documents))
       officeTemplateMeatdata samples prompt =
     acceptedProject
       (metadataEngine
          (map templateMetadata officeTemplateMeatdata @
           map sampleMetadata
             (filter (\<lambda>sample. ''Word'' \<in> set (sample_types sample) \<or>
                                ''Excel'' \<in> set (sample_types sample) \<or>
                                ''Powerpoint'' \<in> set (sample_types sample))
                samples)))
   \<and> matchOfficeProjectByBM25 toLowerCase prepareDiscription
       (\<lambda>documents query maxResults. idEngine (map (md_id \<circ> metadata) documents))
       officeTemplateMeatdata samples prompt =
     acceptedProject
       (idEngine
          (map config_id officeTemplateMeatdata @
           map sample_id
             (filter (\<lambda>sample. ''Word'' \<in> set (sample_types sample) \<or>
                                ''Excel'' \<in> set (sample_types sample) \<or>
                                ''Powerpoint'' \<in> set (sample_types sample))
                samples)))
   \<and> matchOfficeProjectByBM25 toLowerCase prepareDiscription
       (\<lambda>documents query maxResults. lengthEngine (length documents))
       officeTemplateMeatdata samples prompt =
     acceptedProject
       (lengthEngine
          (length officeTemplateMeatdata +
           length
             (filter (\<lambda>sample. ''Word'' \<in> set (sample_types sample) \<or>
                                ''Excel'' \<in> set (sample_types sample) \<or>
                                ''Powerpoint'' \<in> set (sample_types sample))
                samples)))"
proof -
  let ?all = "allOfficeProjectMetadata officeTemplateMeatdata samples"
  let ?documents = "corpusDocuments toLowerCase prepareDiscription ?all"
  let ?passes = "\<lambda>sample. ''Word'' \<in> set (sample_types sample) \<or>
      ''Excel'' \<in> set (sample_types sample) \<or> ''Powerpoint'' \<in> set (sample_types sample)"
  have test: "isOfficeSample = ?passes"
    by (simp add: isOfficeSample_def includes_str_def fun_eq_iff)
  have md: "map metadata ?documents =
      map templateMetadata officeTemplateMeatdata @
      map sampleMetadata (filter ?passes samples)"
    by (simp add: corpusDocuments_def allOfficeProjectMetadata_eq comp_def test)
  have ids: "map (md_id \<circ> metadata) ?documents =
      map config_id officeTemplateMeatdata @ map sample_id (filter ?passes samples)"
    by (simp add: corpusDocuments_def allOfficeProjectMetadata_eq comp_def
        templateMetadata_def sampleMetadata_def test)
  have len: "length ?documents =
      length officeTemplateMeatdata + length (filter ?passes samples)"
    by (simp add: corpusDocuments_def allOfficeProjectMetadata_eq test)
  show ?thesis
    by (simp only: matchOfficeProjectByBM25_engine_call md ids len simp_thms)
qed

text \<open>
  On the example catalogs an engine that answers with the second document it was given
  makes the function return the Word sample: the second document carries the metadata of
  the first sample that passes the test, after the one template.
\<close>

theorem corpus_follows_catalogs_witness:
  "matchOfficeProjectByBM25 toLowerCaseASCII termsOf
       (\<lambda>documents query maxResults.
          (\<lambda>entries. [\<lparr> score = 2,
                         document = \<lparr> documentText = [], metadata = entries ! 1 \<rparr> \<rparr>])
            (map metadata documents))
       exampleTemplates exampleSamples ''Word'' =
     Some (sampleMetadata (exampleSamples ! 0))"
proof -
  have "map templateMetadata exampleTemplates @
        map sampleMetadata
          (filter (\<lambda>sample. ''Word'' \<in> set (sample_types sample) \<or>
                             ''Excel'' \<in> set (sample_types sample) \<or>
                             ''Powerpoint'' \<in> set (sample_types sample))
             exampleSamples) =
        [templateMetadata (exampleTemplates ! 0), sampleMetadata (exampleSamples ! 0)]"
    by (simp add: exampleTemplates_def exampleSamples_def)
  then show ?thesis
    using corpus_follows_catalogs [of toLowerCaseASCII termsOf
        "\<lambda>entries. [\<lparr> score = 2,
                        document = \<lparr> documentText = [], metadata = entries ! 1 \<rparr> \<rparr>]"
        exampleTemplates exampleSamples "''Word''"]
    by (simp add: acceptedProject_def)
qed

text \<open>
  C6. The tokenizer is applied to lower-cased text and to nothing else. An engine that
  decides on the query decides on the tokens of the lower-cased prompt, and an engine that
  decides on the texts of its documents decides on the joined tokens of the lower-cased
  descriptions of the catalog entries, where the whole prompt and the whole description
  went through \<open>toLowerCase\<close> before the tokenizer saw them. A tokenizer that differs from
  \<open>prepareDiscription\<close> only on texts that are not results of \<open>toLowerCase\<close> gives the same
  result, and so does a prompt with the same lower-casing. This holds for every function
  in the place of the built-in \<open>toLowerCase\<close>.
\<close>

theorem tokenizer_sees_lower_case:
  "matchOfficeProjectByBM25 toLowerCase prepareDiscription
       (\<lambda>documents query maxResults. queryEngine query)
       officeTemplateMeatdata samples prompt =
     acceptedProject (queryEngine (prepareDiscription (toLowerCase prompt)))
   \<and> matchOfficeProjectByBM25 toLowerCase prepareDiscription
       (\<lambda>documents query maxResults. textEngine (map documentText documents))
       officeTemplateMeatdata samples prompt =
     acceptedProject
       (textEngine
          (map (\<lambda>config. join (prepareDiscription (toLowerCase (config_description config)))
                            '' '')
             officeTemplateMeatdata @
           map (\<lambda>sample. join (prepareDiscription
                                  (toLowerCase (sample_fullDescription sample))) '' '')
             (filter isOfficeSample samples)))
   \<and> ((\<forall>text. otherTokenizer (toLowerCase text) = prepareDiscription (toLowerCase text)) \<longrightarrow>
        matchOfficeProjectByBM25 toLowerCase otherTokenizer bm25
          officeTemplateMeatdata samples prompt =
        matchOfficeProjectByBM25 toLowerCase prepareDiscription bm25
          officeTemplateMeatdata samples prompt)
   \<and> (toLowerCase otherPrompt = toLowerCase prompt \<longrightarrow>
        matchOfficeProjectByBM25 toLowerCase prepareDiscription bm25
          officeTemplateMeatdata samples otherPrompt =
        matchOfficeProjectByBM25 toLowerCase prepareDiscription bm25
          officeTemplateMeatdata samples prompt)"
proof (intro conjI impI)
  show "matchOfficeProjectByBM25 toLowerCase prepareDiscription
       (\<lambda>documents query maxResults. queryEngine query)
       officeTemplateMeatdata samples prompt =
     acceptedProject (queryEngine (prepareDiscription (toLowerCase prompt)))"
    by (simp only: matchOfficeProjectByBM25_engine_call)
next
  have "map documentText
          (corpusDocuments toLowerCase prepareDiscription
             (allOfficeProjectMetadata officeTemplateMeatdata samples)) =
        map (\<lambda>config. join (prepareDiscription (toLowerCase (config_description config)))
                          '' '')
          officeTemplateMeatdata @
        map (\<lambda>sample. join (prepareDiscription
                               (toLowerCase (sample_fullDescription sample))) '' '')
          (filter isOfficeSample samples)"
    by (simp add: corpusDocuments_def allOfficeProjectMetadata_eq comp_def
        templateMetadata_def sampleMetadata_def)
  then show "matchOfficeProjectByBM25 toLowerCase prepareDiscription
       (\<lambda>documents query maxResults. textEngine (map documentText documents))
       officeTemplateMeatdata samples prompt =
     acceptedProject
       (textEngine
          (map (\<lambda>config. join (prepareDiscription (toLowerCase (config_description config)))
                            '' '')
             officeTemplateMeatdata @
           map (\<lambda>sample. join (prepareDiscription
                                  (toLowerCase (sample_fullDescription sample))) '' '')
             (filter isOfficeSample samples)))"
    by (simp only: matchOfficeProjectByBM25_engine_call)
next
  assume "\<forall>text. otherTokenizer (toLowerCase text) = prepareDiscription (toLowerCase text)"
  then show "matchOfficeProjectByBM25 toLowerCase otherTokenizer bm25
          officeTemplateMeatdata samples prompt =
        matchOfficeProjectByBM25 toLowerCase prepareDiscription bm25
          officeTemplateMeatdata samples prompt"
    by (simp add: matchOfficeProjectByBM25_engine_call corpusDocuments_def)
next
  assume "toLowerCase otherPrompt = toLowerCase prompt"
  then show "matchOfficeProjectByBM25 toLowerCase prepareDiscription bm25
          officeTemplateMeatdata samples otherPrompt =
        matchOfficeProjectByBM25 toLowerCase prepareDiscription bm25
          officeTemplateMeatdata samples prompt"
    by (simp add: matchOfficeProjectByBM25_engine_call)
qed

text \<open>
  C1, as the code has it. \<open>matchOfficeProjectByBM25\<close> returns the metadata of a project
  exactly when the search with \<open>maxResults = 3\<close> returns one match and no more, and that
  match scores above 1; the metadata is that of the match. In every other case the
  result is \<open>undefined\<close>. This holds for every \<open>toLowerCase\<close>, tokenizer and engine.
\<close>

theorem accepts_single_match_above_one:
  "matchOfficeProjectByBM25 toLowerCase prepareDiscription bm25 officeTemplateMeatdata samples
       prompt = Some m
   \<longleftrightarrow>
   (\<exists>r. bm25 (corpusDocuments toLowerCase prepareDiscription
                 (allOfficeProjectMetadata officeTemplateMeatdata samples))
              (prepareDiscription (toLowerCase prompt)) 3 = [r]
        \<and> 1 < score r \<and> m = metadata (document r))"
  by (auto simp: matchOfficeProjectByBM25_def acceptedProject_def Let_def length_Suc_conv)

lemmas text_simps =
  termsOf_def toLowerCaseASCII_def toLowerCaseASCIIChar_def isUpperCaseASCII_def char_of_eq_iff

lemmas score_simps =
  scoreDocuments_def buildCorpus_def exampleDocuments_def documentStatistics_def
  documentScore_def termScore_def inverseDocumentFrequency_def bm25_k1_def bm25_b_def
  termsOf_def

lemma example_corpus:
  "corpusDocuments toLowerCaseASCII termsOf
     (allOfficeProjectMetadata exampleTemplates exampleSamples) = exampleDocuments"
  by (simp add: corpusDocuments_def example_catalog exampleDocuments_def)
     (simp add: templateMetadata_def sampleMetadata_def exampleTemplates_def
        exampleSamples_def text_simps)

lemma example_lower_cased:
  "toLowerCaseASCII ''Excel chart data Word'' = ''excel chart data word''"
  "toLowerCaseASCII ''Excel chart data'' = ''excel chart data''"
  "toLowerCaseASCII ''EXCEL Chart DATA'' = ''excel chart data''"
  by (simp_all add: text_simps)

lemma example_query_two_matches:
  "termsOf (toLowerCaseASCII ''Excel chart data Word'') =
     [''excel'', ''chart'', ''data'', ''word'']"
  by (simp add: text_simps)

lemma example_query_one_match:
  "termsOf (toLowerCaseASCII ''Excel chart data'') = [''excel'', ''chart'', ''data'']"
  by (simp add: text_simps)

lemma example_scores_two_matches:
  "scoreDocuments (buildCorpus exampleDocuments) [''excel'', ''chart'', ''data'', ''word''] =
     [\<lparr> score = 3 * ln 2, document = exampleDocuments ! 0 \<rparr>,
      \<lparr> score = ln 2, document = exampleDocuments ! 1 \<rparr>]"
  by (simp add: score_simps)

lemma example_scores_one_match:
  "scoreDocuments (buildCorpus exampleDocuments) [''excel'', ''chart'', ''data''] =
     [\<lparr> score = 3 * ln 2, document = exampleDocuments ! 0 \<rparr>,
      \<lparr> score = 0, document = exampleDocuments ! 1 \<rparr>]"
  by (simp add: score_simps)

lemma ln2_bounds: "1 < 3 * ln (2::real)" "ln (2::real) < 1" "0 < ln (2::real)"
proof -
  have "1 / 2 \<le> ln (2::real)"
    by (subst ln_ge_iff) (simp_all only: exp_half_le2 zero_less_numeral)
  then show "1 < 3 * ln (2::real)" by simp
  show "ln (2::real) < 1" by (rule ln_2_less_1)
  show "0 < ln (2::real)" by simp
qed

lemma example_search_two_matches:
  "bm25Search exampleDocuments [''excel'', ''chart'', ''data'', ''word''] 3 =
     [\<lparr> score = 3 * ln 2, document = exampleDocuments ! 0 \<rparr>,
      \<lparr> score = ln 2, document = exampleDocuments ! 1 \<rparr>]"
  by (simp add: bm25Search_def search_def example_scores_two_matches)

lemma example_search_one_match:
  "bm25Search exampleDocuments [''excel'', ''chart'', ''data''] 3 =
     [\<lparr> score = 3 * ln 2, document = exampleDocuments ! 0 \<rparr>]"
  by (simp add: bm25Search_def search_def example_scores_one_match)

lemma example_accepts_template:
  "matchOfficeProjectByBM25 toLowerCaseASCII termsOf bm25Search exampleTemplates
     exampleSamples ''Excel chart data'' = Some (templateMetadata (exampleTemplates ! 0))"
proof -
  have "metadata (exampleDocuments ! 0) = templateMetadata (exampleTemplates ! 0)"
    by (simp add: exampleDocuments_def)
  with ln2_bounds(1) show ?thesis
    by (simp add: matchOfficeProjectByBM25_engine_call example_corpus
        example_query_one_match example_search_one_match acceptedProject_def)
qed

text \<open>
  The amended C1 at work, with the ASCII lower-casing, the tokenizer that cuts at blanks
  and the engine of the specification: the prompt \<open>Excel chart data\<close> overlaps with the
  template only, the search returns that one match with score \<open>3 * ln 2\<close>, and the
  template is accepted.
\<close>

theorem accepts_single_match_above_one_witness:
  "bm25Search
     (corpusDocuments toLowerCaseASCII termsOf
        (allOfficeProjectMetadata exampleTemplates exampleSamples))
     (termsOf (toLowerCaseASCII ''Excel chart data'')) 3 =
     [\<lparr> score = 3 * ln 2, document = exampleDocuments ! 0 \<rparr>]
   \<and> matchOfficeProjectByBM25 toLowerCaseASCII termsOf bm25Search exampleTemplates
        exampleSamples ''Excel chart data'' = Some (templateMetadata (exampleTemplates ! 0))"
proof -
  have found: "bm25Search
     (corpusDocuments toLowerCaseASCII termsOf
        (allOfficeProjectMetadata exampleTemplates exampleSamples))
     (termsOf (toLowerCaseASCII ''Excel chart data'')) 3 =
     [\<lparr> score = 3 * ln 2, document = exampleDocuments ! 0 \<rparr>]"
    by (simp only: example_corpus example_query_one_match example_search_one_match)
  have "metadata (exampleDocuments ! 0) = templateMetadata (exampleTemplates ! 0)"
    by (simp add: exampleDocuments_def)
  with found ln2_bounds(1) show ?thesis
    using accepts_single_match_above_one [of toLowerCaseASCII termsOf bm25Search
        exampleTemplates exampleSamples "''Excel chart data''"
        "templateMetadata (exampleTemplates ! 0)"]
    by simp
qed

text \<open>
  C1, as it is stated, fails. For the prompt \<open>Excel chart data Word\<close> the search returns
  two matches, the template with score \<open>3 * ln 2\<close> (above 1) and the Word sample with
  score \<open>ln 2\<close> (below 1). Exactly one match scores above 1, yet the function returns
  \<open>undefined\<close>, because it asks for a result list of length one.
\<close>

theorem one_of_two_matches_above_one_rejected:
  "exactlyOneAboveThreshold
     (bm25Search
        (corpusDocuments toLowerCaseASCII termsOf
           (allOfficeProjectMetadata exampleTemplates exampleSamples))
        (termsOf (toLowerCaseASCII ''Excel chart data Word'')) 3)
   \<and> matchOfficeProjectByBM25 toLowerCaseASCII termsOf bm25Search exampleTemplates
        exampleSamples ''Excel chart data Word'' = None"
  using ln2_bounds
  by (simp add: matchOfficeProjectByBM25_def acceptedProject_def example_corpus
      example_query_two_matches example_search_two_matches exactlyOneAboveThreshold_def)

text \<open>
  C6 on the examples. The prompts \<open>EXCEL Chart DATA\<close> and \<open>Excel chart data\<close> have the same
  lower-casing, so the first is answered as the second is, with the template. A tokenizer
  that answers \<open>upper\<close> for every text with an ASCII capital agrees with the tokenizer
  that cuts at blanks on all lower-cased texts, although not on \<open>Excel\<close>, and the
  function returns the same with either.
\<close>

lemma toLowerCaseASCIIChar_not_upper: "\<not> isUpperCaseASCII (toLowerCaseASCIIChar c)"
proof (cases "isUpperCaseASCII c")
  case True
  then have "(of_char (char_of ((of_char c :: nat) + 32)) :: nat) = of_char c + 32"
    by (simp add: isUpperCaseASCII_def)
  with True show ?thesis by (simp add: toLowerCaseASCIIChar_def isUpperCaseASCII_def)
next
  case False
  then show ?thesis by (simp add: toLowerCaseASCIIChar_def)
qed

lemma toLowerCaseASCII_no_upper: "filter isUpperCaseASCII (toLowerCaseASCII s) = []"
  by (simp add: toLowerCaseASCII_def filter_empty_conv toLowerCaseASCIIChar_not_upper)

theorem tokenizer_sees_lower_case_witness:
  "toLowerCaseASCII ''EXCEL Chart DATA'' = toLowerCaseASCII ''Excel chart data''
   \<and> toLowerCaseASCII ''Excel chart data'' = ''excel chart data''
   \<and> matchOfficeProjectByBM25 toLowerCaseASCII termsOf bm25Search exampleTemplates
        exampleSamples ''EXCEL Chart DATA'' = Some (templateMetadata (exampleTemplates ! 0))
   \<and> (\<forall>text. (\<lambda>t. if filter isUpperCaseASCII t = [] then termsOf t else [''upper''])
               (toLowerCaseASCII text) = termsOf (toLowerCaseASCII text))
   \<and> (\<lambda>t. if filter isUpperCaseASCII t = [] then termsOf t else [''upper'']) ''Excel'' =
       [''upper'']
   \<and> matchOfficeProjectByBM25 toLowerCaseASCII
        (\<lambda>t. if filter isUpperCaseASCII t = [] then termsOf t else [''upper''])
        bm25Search exampleTemplates exampleSamples ''Excel chart data'' =
       Some (templateMetadata (exampleTemplates ! 0))"
proof -
  note inst = tokenizer_sees_lower_case [of toLowerCaseASCII termsOf "\<lambda>query. []"
      exampleTemplates exampleSamples "''Excel chart data''" "\<lambda>texts. []"
      "\<lambda>t. if filter isUpperCaseASCII t = [] then termsOf t else [''upper'']"
      bm25Search "''EXCEL Chart DATA''"]
  have same: "toLowerCaseASCII ''EXCEL Chart DATA'' = toLowerCaseASCII ''Excel chart data''"
    by (simp only: example_lower_cased)
  have agree: "\<forall>text. (\<lambda>t. if filter isUpperCaseASCII t = [] then termsOf t else [''upper''])
               (toLowerCaseASCII text) = termsOf (toLowerCaseASCII text)"
    by (simp add: toLowerCaseASCII_no_upper)
  have differ: "(\<lambda>t. if filter isUpperCaseASCII t = [] then termsOf t else [''upper''])
      ''Excel'' = [''upper'']"
    by (simp add: isUpperCaseASCII_def)
  from inst same
  have 1: "matchOfficeProjectByBM25 toLowerCaseASCII termsOf bm25Search exampleTemplates
        exampleSamples ''EXCEL Chart DATA'' =
      matchOfficeProjectByBM25 toLowerCaseASCII termsOf bm25Search exampleTemplates
        exampleSamples ''Excel chart data''"
    by blast
  from inst agree
  have 2: "matchOfficeProjectByBM25 toLowerCaseASCII
        (\<lambda>t. if filter isUpperCaseASCII t = [] then termsOf t else [''upper''])
        bm25Search exampleTemplates exampleSamples ''Excel chart data'' =
      matchOfficeProjectByBM25 toLowerCaseASCII termsOf bm25Search exampleTemplates
        exampleSamples ''Excel chart data''"
    by blast
  from same agree differ 1 2 example_accepts_template example_lower_cased(2)
  show ?thesis by (simp only: simp_thms)
qed

section \<open>Properties of the ranking engine\<close>

lemma set_insertByScore: "set (insertByScore m ms) = insert m (set ms)"
  by (induction ms) auto

lemma set_sortByScore: "set (sortByScore ms) = set ms"
  by (induction ms) (simp_all add: set_insertByScore)

lemma sorted_insertByScore:
  "sorted_wrt (\<lambda>m n. score n \<le> score m) ms \<Longrightarrow>
   sorted_wrt (\<lambda>m n. score n \<le> score m) (insertByScore x ms)"
  by (induction ms) (auto simp: set_insertByScore)

lemma sorted_sortByScore: "sorted_wrt (\<lambda>m n. score n \<le> score m) (sortByScore ms)"
  by (induction ms) (simp_all add: sorted_insertByScore)

lemma filter_insertByScore_other:
  "score x \<noteq> s \<Longrightarrow>
   filter (\<lambda>m. score m = s) (insertByScore x ms) = filter (\<lambda>m. score m = s) ms"
  by (induction ms) simp_all

lemma filter_insertByScore_same:
  "sorted_wrt (\<lambda>m n. score n \<le> score m) ms \<Longrightarrow>
   filter (\<lambda>m. score m = score x) (insertByScore x ms) =
     x # filter (\<lambda>m. score m = score x) ms"
proof (induction ms)
  case Nil
  show ?case by simp
next
  case (Cons n ns)
  show ?case
  proof (cases "score n \<le> score x")
    case True
    then show ?thesis by simp
  next
    case False
    with Cons show ?thesis by simp
  qed
qed

lemma sortByScore_stable:
  "filter (\<lambda>m. score m = s) (sortByScore ms) = filter (\<lambda>m. score m = s) ms"
proof (induction ms)
  case Nil
  show ?case by simp
next
  case (Cons x xs)
  show ?case
  proof (cases "score x = s")
    case True
    have "filter (\<lambda>m. score m = score x) (insertByScore x (sortByScore xs)) =
          x # filter (\<lambda>m. score m = score x) (sortByScore xs)"
      by (rule filter_insertByScore_same) (rule sorted_sortByScore)
    with True Cons show ?thesis by simp
  next
    case False
    with Cons show ?thesis by (simp add: filter_insertByScore_other)
  qed
qed

lemma filter_take_prefix: "prefix (filter P (take k xs)) (filter P xs)"
proof -
  have "filter P xs = filter P (take k xs) @ filter P (drop k xs)"
    by (metis append_take_drop_id filter_append)
  then show ?thesis by (simp add: prefix_def)
qed

lemma termScore_absent: "termFrequency d t = 0 \<Longrightarrow> termScore engine d t = 0"
  by (simp add: termScore_def)

lemma documentScore_no_overlap:
  "\<forall>t \<in> set query. termFrequency d t = 0 \<Longrightarrow> documentScore engine d query = 0"
  unfolding documentScore_def by (induction query) (simp_all add: termScore_absent)

lemma search_subset:
  "set (search engine query k) \<subseteq> {m \<in> set (scoreDocuments engine query). 0 < score m}"
  unfolding search_def
  using set_take_subset [of k
      "sortByScore (filter (\<lambda>m. 0 < score m) (scoreDocuments engine query))"]
  by (auto simp: set_sortByScore)


text \<open>
  The engine on the scenario of the specification: for the query \<open>excel function\<close>
  document B comes first, document A second, and document C is left out.
\<close>

lemma scenario_scores:
  "scoreDocuments (buildCorpus scenarioDocuments) [''excel'', ''function''] =
     [\<lparr> score = ln (8 / 5), document = scenarioDocuments ! 0 \<rparr>,
      \<lparr> score = ln (8 / 5) + ln (8 / 3), document = scenarioDocuments ! 1 \<rparr>,
      \<lparr> score = 0, document = scenarioDocuments ! 2 \<rparr>]"
  by (simp add: scoreDocuments_def buildCorpus_def scenarioDocuments_def
      documentStatistics_def documentScore_def termScore_def inverseDocumentFrequency_def
      bm25_k1_def bm25_b_def termsOf_def)

lemma scenario_search:
  "map (md_id \<circ> metadata \<circ> document)
     (search (buildCorpus scenarioDocuments) [''excel'', ''function''] 3) = [''B'', ''A'']"
proof -
  have "0 < ln (8 / 5 :: real)" "0 < ln (8 / 3 :: real)" by simp_all
  then show ?thesis
    by (simp add: search_def scenario_scores add_pos_pos)
       (simp add: scenarioDocuments_def scenarioMetadata_def)
qed

text \<open>
  C2. For every corpus and every query, \<open>search\<close> returns at most \<open>maxResults\<close> matches.
  Every match has a score above 0, belongs to a document of the corpus, and that document
  shares a term with the query: a document without any query term is not returned.
\<close>

theorem search_bounded_and_positive:
  "length (search (buildCorpus documents) query maxResults) \<le> maxResults \<and>
   (\<forall>m \<in> set (search (buildCorpus documents) query maxResults).
      0 < score m \<and> document m \<in> set documents \<and>
      (\<exists>t \<in> set query. t \<in> set (termsOf (documentText (document m)))))"
proof (intro conjI ballI)
  show "length (search (buildCorpus documents) query maxResults) \<le> maxResults"
    by (simp add: search_def)
next
  fix m
  assume "m \<in> set (search (buildCorpus documents) query maxResults)"
  with search_subset
  have m: "m \<in> set (scoreDocuments (buildCorpus documents) query)" and pos: "0 < score m"
    by blast+
  from m obtain d where d: "d \<in> set documents"
    and sc: "score m = documentScore (buildCorpus documents) (documentStatistics d) query"
    and doc: "document m = d"
    by (auto simp: scoreDocuments_def buildCorpus_def documentStatistics_def)
  show "0 < score m" by (rule pos)
  show "document m \<in> set documents" using d doc by simp
  show "\<exists>t \<in> set query. t \<in> set (termsOf (documentText (document m)))"
  proof (rule ccontr)
    assume "\<not> ?thesis"
    then have "\<forall>t \<in> set query. termFrequency (documentStatistics d) t = 0"
      using doc by (simp add: documentStatistics_def)
    then have "documentScore (buildCorpus documents) (documentStatistics d) query = 0"
      by (rule documentScore_no_overlap)
    with sc pos show False by simp
  qed
qed

theorem search_bounded_and_positive_witness:
  "search (buildCorpus exampleDocuments) [''excel'', ''chart'', ''data'', ''word''] 1 =
     [\<lparr> score = 3 * ln 2, document = exampleDocuments ! 0 \<rparr>]
   \<and> length (search (buildCorpus exampleDocuments)
               [''excel'', ''chart'', ''data'', ''word''] 1) \<le> 1
   \<and> 0 < score \<lparr> score = 3 * ln 2, document = exampleDocuments ! 0 \<rparr>
   \<and> exampleDocuments ! 0 \<in> set exampleDocuments
   \<and> (\<exists>t \<in> set [''excel'', ''chart'', ''data'', ''word''].
         t \<in> set (termsOf (documentText (exampleDocuments ! 0))))"
proof -
  have found: "search (buildCorpus exampleDocuments)
      [''excel'', ''chart'', ''data'', ''word''] 1 =
     [\<lparr> score = 3 * ln 2, document = exampleDocuments ! 0 \<rparr>]"
    by (simp add: search_def example_scores_two_matches)
  then have "\<lparr> score = 3 * ln 2, document = exampleDocuments ! 0 \<rparr>
      \<in> set (search (buildCorpus exampleDocuments)
               [''excel'', ''chart'', ''data'', ''word''] 1)"
    by simp
  note mem = this
  note inst = search_bounded_and_positive [of exampleDocuments
      "[''excel'', ''chart'', ''data'', ''word'']" 1]
  from inst have len: "length (search (buildCorpus exampleDocuments)
      [''excel'', ''chart'', ''data'', ''word''] 1) \<le> 1"
    by (rule conjunct1)
  from inst have "\<forall>m \<in> set (search (buildCorpus exampleDocuments)
        [''excel'', ''chart'', ''data'', ''word''] 1).
      0 < score m \<and> document m \<in> set exampleDocuments \<and>
      (\<exists>t \<in> set [''excel'', ''chart'', ''data'', ''word''].
         t \<in> set (termsOf (documentText (document m))))"
    by (rule conjunct2)
  from bspec [OF this mem]
  have "0 < score \<lparr> score = 3 * ln 2, document = exampleDocuments ! 0 \<rparr>
      \<and> exampleDocuments ! 0 \<in> set exampleDocuments
      \<and> (\<exists>t \<in> set [''excel'', ''chart'', ''data'', ''word''].
           t \<in> set (termsOf (documentText (exampleDocuments ! 0))))"
    by (simp only: BMDocument.select_convs)
  with found len show ?thesis
    by blast
qed

text \<open>
  C3. For every engine and every query, the matches that \<open>search\<close> returns are in
  descending order of score. Matches with the same score keep the order of the corpus:
  for every score \<open>s\<close>, the returned matches with score \<open>s\<close> are an initial part of the
  corpus documents with score \<open>s\<close>, taken in corpus order.
\<close>

theorem search_sorted_stable:
  "sorted_wrt (\<lambda>m n. score n \<le> score m) (search engine query maxResults) \<and>
   prefix (filter (\<lambda>m. score m = s) (search engine query maxResults))
          (filter (\<lambda>m. score m = s) (scoreDocuments engine query))"
proof
  show "sorted_wrt (\<lambda>m n. score n \<le> score m) (search engine query maxResults)"
    unfolding search_def by (rule sorted_wrt_take) (rule sorted_sortByScore)
next
  let ?pos = "filter (\<lambda>m. 0 < score m) (scoreDocuments engine query)"
  have "prefix (filter (\<lambda>m. score m = s) (search engine query maxResults))
          (filter (\<lambda>m. score m = s) (sortByScore ?pos))"
    unfolding search_def by (rule filter_take_prefix)
  also have "filter (\<lambda>m. score m = s) (sortByScore ?pos) = filter (\<lambda>m. score m = s) ?pos"
    by (rule sortByScore_stable)
  finally have "prefix (filter (\<lambda>m. score m = s) (search engine query maxResults))
          (filter (\<lambda>m. score m = s) ?pos)" .
  moreover have "filter (\<lambda>m. score m = s) ?pos =
    (if 0 < s then filter (\<lambda>m. score m = s) (scoreDocuments engine query) else [])"
    by (auto simp: filter_empty_conv intro: filter_cong)
  ultimately show "prefix (filter (\<lambda>m. score m = s) (search engine query maxResults))
          (filter (\<lambda>m. score m = s) (scoreDocuments engine query))"
    by (auto split: if_splits)
qed

text \<open>
  C4. The constructor accepts the empty document sequence and yields an engine with an
  empty corpus; every search on that engine returns no match. A search with the empty
  query returns no match on any engine. The model has no failing branch: both are plain
  values.
\<close>

theorem search_empty:
  "corpus (buildCorpus []) = [] \<and> totalDocuments (buildCorpus []) = 0
   \<and> search (buildCorpus []) query maxResults = []
   \<and> search engine [] maxResults = []"
  by (simp add: search_def scoreDocuments_def buildCorpus_def documentScore_def)

lemma mset_insertByScore: "mset (insertByScore m ms) = add_mset m (mset ms)"
  by (induction ms) simp_all

lemma mset_sortByScore: "mset (sortByScore ms) = mset ms"
  by (induction ms) (simp_all add: mset_insertByScore)

lemma insertByScore_insort_key:
  "insertByScore m ms = insort_key (\<lambda>n. - score n) m ms"
  by (induction ms) simp_all

lemma sortByScore_sort_key: "sortByScore ms = sort_key (\<lambda>n. - score n) ms"
  by (induction ms) (simp_all add: insertByScore_insort_key)

lemma filter_score_positive:
  "0 < s \<Longrightarrow>
   filter (\<lambda>n. score n = s) (filter (\<lambda>m. 0 < score m) ms) = filter (\<lambda>n. score n = s) ms"
  by (induction ms) auto

lemma isRanking_sortByScore:
  "isRanking engine query
     (sortByScore (filter (\<lambda>m. 0 < score m) (scoreDocuments engine query)))"
proof -
  let ?pos = "filter (\<lambda>m. 0 < score m) (scoreDocuments engine query)"
  have "filter (\<lambda>n. score n = score m) (sortByScore ?pos) =
        filter (\<lambda>n. score n = score m) (scoreDocuments engine query)"
    if "m \<in> set (sortByScore ?pos)" for m
  proof -
    from that have "0 < score m" by (simp add: set_sortByScore)
    then show ?thesis by (simp only: sortByScore_stable filter_score_positive)
  qed
  then show ?thesis
    unfolding isRanking_def
    by (intro conjI ballI) (simp_all only: mset_sortByScore sorted_sortByScore)
qed

lemma isRanking_unique:
  assumes "isRanking engine query ranked"
  shows "ranked = sortByScore (filter (\<lambda>m. 0 < score m) (scoreDocuments engine query))"
proof -
  let ?pos = "filter (\<lambda>m. 0 < score m) (scoreDocuments engine query)"
  from assms have same: "mset ranked = mset ?pos"
    and desc: "sorted_wrt (\<lambda>m n. score n \<le> score m) ranked"
    and ties: "\<forall>m \<in> set ranked.
         filter (\<lambda>n. score n = score m) ranked =
         filter (\<lambda>n. score n = score m) (scoreDocuments engine query)"
    by (simp_all add: isRanking_def)
  have "sort_key (\<lambda>n. - score n) ?pos = ranked"
  proof (rule properties_for_sort_key)
    show "mset ranked = mset ?pos" by (rule same)
  next
    fix k
    assume k: "k \<in> set ranked"
    with same have "k \<in> set ?pos" by (metis set_mset_mset)
    then have "0 < score k" by simp
    then have "filter (\<lambda>n. score n = score k) ?pos =
        filter (\<lambda>n. score n = score k) (scoreDocuments engine query)"
      by (rule filter_score_positive)
    moreover from ties k have "filter (\<lambda>n. score n = score k) ranked =
        filter (\<lambda>n. score n = score k) (scoreDocuments engine query)"
      by (rule bspec)
    ultimately have eq: "filter (\<lambda>n. score n = score k) ranked =
        filter (\<lambda>n. score n = score k) ?pos"
      by (rule ssubst)
    have conv: "filter (\<lambda>x. - score k = - score x) xs = filter (\<lambda>n. score n = score k) xs"
      for xs :: "BMDocument list"
      by (rule filter_cong) auto
    show "filter (\<lambda>x. - score k = - score x) ranked =
        filter (\<lambda>x. - score k = - score x) ?pos"
      by (simp only: conv eq)
  next
    from desc show "sorted (map (\<lambda>n. - score n) ranked)"
      by (simp add: sorted_map)
  qed
  then show ?thesis by (simp add: sortByScore_sort_key)
qed

text \<open>
  C7. What a search returns is fixed by the engine, the query and \<open>maxResults\<close>. The
  contract of the specification (every document with a positive score, in descending
  order, equal scores in corpus order, cut after \<open>maxResults\<close>) is met by the result of
  \<open>search\<close>, for every engine, every query and every \<open>maxResults\<close>: a search always has a
  result. And the contract is met by one sequence only: any two results of searches on
  the same engine with the same query and the same \<open>maxResults\<close> are identical
  sequences.
\<close>

theorem search_deterministic:
  "isSearchResult engine query maxResults (search engine query maxResults)
   \<and> (isSearchResult engine query maxResults first \<and>
        isSearchResult engine query maxResults second \<longrightarrow> first = second)"
proof (intro conjI impI)
  show "isSearchResult engine query maxResults (search engine query maxResults)"
    unfolding isSearchResult_def search_def
    using isRanking_sortByScore [of engine query] by blast
next
  assume both: "isSearchResult engine query maxResults first \<and>
        isSearchResult engine query maxResults second"
  let ?ranking = "sortByScore (filter (\<lambda>m. 0 < score m) (scoreDocuments engine query))"
  have unique: "matches = take maxResults ?ranking"
    if "isSearchResult engine query maxResults matches" for matches
  proof -
    from that obtain ranked where "isRanking engine query ranked"
      and "matches = take maxResults ranked"
      by (auto simp: isSearchResult_def)
    then show ?thesis using isRanking_unique by blast
  qed
  from both have "first = take maxResults ?ranking" and "second = take maxResults ?ranking"
    by (simp_all add: unique)
  then show "first = second" by simp
qed

text \<open>
  On the example corpus the two matches of the query, the template before the Word
  sample, meet the contract by their scores alone; so they are what the search returns.
\<close>

theorem search_deterministic_witness:
  "isSearchResult (buildCorpus exampleDocuments) [''excel'', ''chart'', ''data'', ''word''] 3
     [\<lparr> score = 3 * ln 2, document = exampleDocuments ! 0 \<rparr>,
      \<lparr> score = ln 2, document = exampleDocuments ! 1 \<rparr>]
   \<and> isSearchResult (buildCorpus exampleDocuments) [''excel'', ''chart'', ''data'', ''word''] 3
     (search (buildCorpus exampleDocuments) [''excel'', ''chart'', ''data'', ''word''] 3)
   \<and> [\<lparr> score = 3 * ln 2, document = exampleDocuments ! 0 \<rparr>,
       \<lparr> score = ln 2, document = exampleDocuments ! 1 \<rparr>] =
     search (buildCorpus exampleDocuments) [''excel'', ''chart'', ''data'', ''word''] 3"
proof -
  let ?engine = "buildCorpus exampleDocuments"
  let ?query = "[''excel'', ''chart'', ''data'', ''word'']"
  let ?matches = "[\<lparr> score = 3 * ln 2, document = exampleDocuments ! 0 \<rparr>,
      \<lparr> score = ln 2, document = exampleDocuments ! 1 \<rparr>]"
  have "isRanking ?engine ?query ?matches"
    using ln2_bounds(3) by (simp add: isRanking_def example_scores_two_matches)
  then have "isRanking ?engine ?query ?matches \<and> ?matches = take 3 ?matches"
    by simp
  then have given: "isSearchResult ?engine ?query 3 ?matches"
    unfolding isSearchResult_def by (rule exI)
  note inst = search_deterministic [of ?engine ?query 3 ?matches "search ?engine ?query 3"]
  from inst have found: "isSearchResult ?engine ?query 3 (search ?engine ?query 3)"
    by (rule conjunct1)
  from inst given found have "?matches = search ?engine ?query 3"
    by blast
  with given found show ?thesis by blast
qed

section \<open>Properties of the language-model matcher\<close>

lemma matchedProjectIdOf_total: "\<exists>v. matchedProjectIdOf JSON_parse response = Inr v"
  by (auto simp: matchedProjectIdOf_def tryCatch_def tryParseAddin_def
      split: option.splits sum.splits)

lemma matchOfficeProject_absent:
  "response = None \<or> response = Some [] \<Longrightarrow>
   matchOfficeProject JSON_parse officeTemplateMeatdata samples response = Inr None"
  by (auto simp: matchOfficeProject_def matchedProjectIdOf_def find_None_iff)

lemma matchOfficeProject_invalid_json:
  "response = Some r \<Longrightarrow> JSON_parse r = Inl e \<Longrightarrow>
   matchOfficeProject JSON_parse officeTemplateMeatdata samples response = Inr None"
  by (simp add: matchOfficeProject_def matchedProjectIdOf_def tryCatch_def tryParseAddin_def
      find_None_iff)

lemma matchOfficeProject_no_addin:
  "response = Some r \<Longrightarrow> JSON_parse r = Inr responseJson \<Longrightarrow>
   getAddin responseJson = None \<Longrightarrow>
   matchOfficeProject JSON_parse officeTemplateMeatdata samples response = Inr None"
  by (simp add: matchOfficeProject_def matchedProjectIdOf_def tryCatch_def tryParseAddin_def
      find_None_iff truthy_def)

lemma matchOfficeProject_unknown_id:
  assumes "response = Some r" and "JSON_parse r = Inr responseJson"
    and "getAddin responseJson = Some (JString i)"
    and "i \<notin> md_id ` set (allOfficeProjectMetadata officeTemplateMeatdata samples)"
  shows "matchOfficeProject JSON_parse officeTemplateMeatdata samples response = Inr None"
proof -
  from assms(4)
  have "find (\<lambda>config. strictEquals (md_id config) (Some (JString i)))
          (allOfficeProjectMetadata officeTemplateMeatdata samples) = None"
    by (auto simp: find_None_iff)
  with assms(1-3) show ?thesis
    by (simp add: matchOfficeProject_def matchedProjectIdOf_def tryCatch_def
        tryParseAddin_def find_None_iff truthy_def)
qed

lemma matchOfficeProject_found:
  assumes "matchOfficeProject JSON_parse officeTemplateMeatdata samples response =
           Inr (Some m)"
  shows "m \<in> set (allOfficeProjectMetadata officeTemplateMeatdata samples) \<and>
        (\<exists>r responseJson. response = Some r \<and> JSON_parse r = Inr responseJson \<and>
           getAddin responseJson = Some (JString (md_id m)))"
proof -
  from assms obtain v where v: "matchedProjectIdOf JSON_parse response = Inr v"
    and f: "find (\<lambda>config. strictEquals (md_id config) v)
              (allOfficeProjectMetadata officeTemplateMeatdata samples) = Some m"
    by (auto simp: matchOfficeProject_def split: sum.splits)
  from f have m: "m \<in> set (allOfficeProjectMetadata officeTemplateMeatdata samples)"
    and eq: "strictEquals (md_id m) v"
    by (auto simp: find_Some_iff)
  from eq have v': "v = Some (JString (md_id m))"
    by (cases "(md_id m, v)" rule: strictEquals.cases) auto
  from v v'
  have "\<exists>r responseJson. response = Some r \<and> JSON_parse r = Inr responseJson \<and>
           getAddin responseJson = Some (JString (md_id m))"
    by (auto simp: matchedProjectIdOf_def tryCatch_def tryParseAddin_def
        split: option.splits sum.splits if_splits)
  with m show ?thesis by simp
qed

text \<open>
  C8. Whatever the chat completion answered and whatever \<open>JSON.parse\<close> does with it,
  \<open>matchOfficeProject\<close> returns and does not throw. The result is \<open>undefined\<close> when the
  response is absent or empty, when \<open>JSON.parse\<close> throws, when the parsed value has no
  \<open>addin\<close> property, and when \<open>addin\<close> is an id that no catalog entry has. When the result
  is a project, the project is an entry of the combined catalog and the parsed \<open>addin\<close> is
  the string that is its id.
\<close>

theorem matchOfficeProject_never_throws:
  "(\<exists>result. matchOfficeProject JSON_parse officeTemplateMeatdata samples response =
              Inr result)
   \<and> (response = None \<or> response = Some [] \<longrightarrow>
        matchOfficeProject JSON_parse officeTemplateMeatdata samples response = Inr None)
   \<and> (response = Some r \<and> JSON_parse r = Inl e \<longrightarrow>
        matchOfficeProject JSON_parse officeTemplateMeatdata samples response = Inr None)
   \<and> (response = Some r \<and> JSON_parse r = Inr responseJson \<and>
        getAddin responseJson = None \<longrightarrow>
        matchOfficeProject JSON_parse officeTemplateMeatdata samples response = Inr None)
   \<and> (response = Some r \<and> JSON_parse r = Inr responseJson \<and>
        getAddin responseJson = Some (JString i) \<and>
        i \<notin> md_id ` set (allOfficeProjectMetadata officeTemplateMeatdata samples) \<longrightarrow>
        matchOfficeProject JSON_parse officeTemplateMeatdata samples response = Inr None)
   \<and> (matchOfficeProject JSON_parse officeTemplateMeatdata samples response =
          Inr (Some m) \<longrightarrow>
        m \<in> set (allOfficeProjectMetadata officeTemplateMeatdata samples) \<and>
        (\<exists>r responseJson. response = Some r \<and> JSON_parse r = Inr responseJson \<and>
           getAddin responseJson = Some (JString (md_id m))))"
proof (intro conjI)
  show "\<exists>result. matchOfficeProject JSON_parse officeTemplateMeatdata samples response =
          Inr result"
    using matchedProjectIdOf_total [of JSON_parse response]
    by (auto simp: matchOfficeProject_def)
qed (blast intro: matchOfficeProject_absent matchOfficeProject_invalid_json
      matchOfficeProject_no_addin matchOfficeProject_unknown_id
      dest: matchOfficeProject_found)+

lemma exampleParse_simps:
  "exampleParse ''{\"addin\":\"excel-chart\"}'' =
     Inr (JObject [(''addin'', JString ''excel-chart'')])"
  "exampleParse ''{\"addin\":\"unknown\"}'' = Inr (JObject [(''addin'', JString ''unknown'')])"
  "exampleParse ''null'' = Inr JNull"
  "exampleParse ''not json'' = Inl SyntaxError"
  by (simp_all add: exampleParse_def)

lemma example_match_found:
  "matchOfficeProject exampleParse exampleTemplates exampleSamples
      (Some ''{\"addin\":\"excel-chart\"}'') =
     Inr (Some (templateMetadata (exampleTemplates ! 0)))"
  by (simp add: matchOfficeProject_def matchedProjectIdOf_def tryCatch_def tryParseAddin_def
      exampleParse_simps truthy_def example_catalog example_ids)

theorem matchOfficeProject_never_throws_witness:
  "matchOfficeProject exampleParse exampleTemplates exampleSamples
      (Some ''{\"addin\":\"excel-chart\"}'') =
     Inr (Some (templateMetadata (exampleTemplates ! 0)))
   \<and> templateMetadata (exampleTemplates ! 0)
       \<in> set (allOfficeProjectMetadata exampleTemplates exampleSamples)
   \<and> matchOfficeProject exampleParse exampleTemplates exampleSamples
      (Some ''{\"addin\":\"unknown\"}'') = Inr None
   \<and> matchOfficeProject exampleParse exampleTemplates exampleSamples (Some ''not json'') =
     Inr None
   \<and> matchOfficeProject exampleParse exampleTemplates exampleSamples (Some ''null'') =
     Inr None
   \<and> matchOfficeProject exampleParse exampleTemplates exampleSamples None = Inr None"
proof -
  note inst = matchOfficeProject_never_throws [where JSON_parse = exampleParse
      and officeTemplateMeatdata = exampleTemplates and samples = exampleSamples
      and m = "templateMetadata (exampleTemplates ! 0)" and e = SyntaxError
      and i = "''unknown''"]
  have unknown:
    "''unknown'' \<notin> md_id ` set (allOfficeProjectMetadata exampleTemplates exampleSamples)"
    by (simp add: example_catalog example_ids)
  have 0: "templateMetadata (exampleTemplates ! 0)
       \<in> set (allOfficeProjectMetadata exampleTemplates exampleSamples)"
    using example_match_found
      inst [where response = "Some ''{\"addin\":\"excel-chart\"}''" and r = "''null''"
        and responseJson = JNull]
    by blast
  have 1: "matchOfficeProject exampleParse exampleTemplates exampleSamples
      (Some ''{\"addin\":\"unknown\"}'') = Inr None"
    using unknown
      inst [where response = "Some ''{\"addin\":\"unknown\"}''"
        and r = "''{\"addin\":\"unknown\"}''"
        and responseJson = "JObject [(''addin'', JString ''unknown'')]"]
    by (simp add: exampleParse_simps)
  have 2: "matchOfficeProject exampleParse exampleTemplates exampleSamples
      (Some ''not json'') = Inr None"
    using inst [where response = "Some ''not json''" and r = "''not json''"
        and responseJson = JNull]
    by (simp add: exampleParse_simps)
  have 3: "matchOfficeProject exampleParse exampleTemplates exampleSamples
      (Some ''null'') = Inr None"
    using inst [where response = "Some ''null''" and r = "''null''" and responseJson = JNull]
    by (simp add: exampleParse_simps)
  have 4: "matchOfficeProject exampleParse exampleTemplates exampleSamples None = Inr None"
    using inst [where response = None and r = "''null''" and responseJson = JNull]
    by simp
  from example_match_found 0 1 2 3 4 show ?thesis by simp
qed

section \<open>Properties of the create command\<close>

text \<open>
  C10. When the harm check reports the request as harmful, the handler returns the Create
  command with the request id of the telemetry data. Its effects are the start telemetry
  event, the harm check, the localized harmful-input message, the completion mark and the
  final telemetry event, in this order: the message is the only thing written to the
  response, and there is no project matching, no chat interaction, no planner call and no
  file tree.
\<close>

theorem harmful_input_only_message:
  "isHarmful env \<Longrightarrow>
     fst (officeCreateCommandHandler env) =
       \<lparr> resultMetadata = \<lparr> command = Create, requestId = telemetryRequestId env \<rparr> \<rparr>
     \<and> snd (officeCreateCommandHandler env) =
       [SendTelemetryEvent CopilotChatStart, IsInputHarmful,
        ResponseMarkdown
          (localize env ''teamstoolkit.chatParticipants.officeAddIn.harmfulInputResponse''),
        MarkComplete, SendTelemetryEvent CopilotChat]
     \<and> filter writesResponse (snd (officeCreateCommandHandler env)) =
       [ResponseMarkdown
          (localize env ''teamstoolkit.chatParticipants.officeAddIn.harmfulInputResponse'')]
     \<and> MatchOfficeProject \<notin> set (snd (officeCreateCommandHandler env))"
  by (simp add: officeCreateCommandHandler_def completeRequest_def)

theorem harmful_input_only_message_witness:
  "isHarmful exampleCollaborators
   \<and> fst (officeCreateCommandHandler exampleCollaborators) =
       \<lparr> resultMetadata = \<lparr> command = Create, requestId = ''r-1'' \<rparr> \<rparr>
   \<and> snd (officeCreateCommandHandler exampleCollaborators) =
       [SendTelemetryEvent CopilotChatStart, IsInputHarmful,
        ResponseMarkdown
          ''L:teamstoolkit.chatParticipants.officeAddIn.harmfulInputResponse'',
        MarkComplete, SendTelemetryEvent CopilotChat]"
proof -
  have harmful: "isHarmful exampleCollaborators"
    by (simp add: exampleCollaborators_def)
  from harmful_input_only_message [OF harmful] harmful show ?thesis
    by (simp add: exampleCollaborators_def)
qed


end
